theory Spec2Isabelle
  imports Main "HOL-Library.Word"
begin

unbundle bit_operations_syntax

section \<open>Hamming SEC-DED code (3\_LAB/main\_app.py, 4\_LAB/hamming\_functions.py)\<close>

text \<open>
  Bits are Python ints (the callers produce 0 and 1); positions, lengths and the
  syndrome are non-negative and modelled as \<open>nat\<close>.

  The loop \<^verbatim>\<open>while (2**r) < (m + r + 1): r += 1\<close>, started at \<open>r\<close>.
\<close>

lemma parity_loop_guard: "(2::nat) ^ r < m + r + 1 \<Longrightarrow> r < m + (1::nat)"
proof (cases r)
  case 0
  assume "(2::nat) ^ r < m + r + 1"
  with 0 show ?thesis by simp
next
  case (Suc k)
  assume a: "(2::nat) ^ r < m + r + 1"
  have "k < (2::nat) ^ k"
    by (rule less_exp)
  then have h: "Suc k \<le> (2::nat) ^ k"
    by (rule Suc_leI)
  have "Suc k + Suc k \<le> (2::nat) ^ k + 2 ^ k"
    by (rule add_mono [OF h h])
  then have "Suc k + Suc k \<le> (2::nat) ^ Suc k"
    by simp
  with a Suc show ?thesis by simp
qed

function standard_parity_loop :: "nat \<Rightarrow> nat \<Rightarrow> nat" where
  "standard_parity_loop m r =
     (if 2 ^ r < m + r + 1 then standard_parity_loop m (r + 1) else r)"
  by pat_completeness auto

termination
proof (relation "measure (\<lambda>(m, r). (m + 1) - r)")
  show "wf (measure (\<lambda>(m, r). (m + 1) - r))"
    by simp
next
  fix m r :: nat
  assume "(2::nat) ^ r < m + r + 1"
  then have "r < m + 1"
    by (rule parity_loop_guard)
  then show "((m, r + 1), (m, r)) \<in> measure (\<lambda>(m, r). (m + 1) - r)"
    by simp
qed

definition get_sec_ded_hamming_params :: "nat \<Rightarrow> nat \<times> nat" where
  "get_sec_ded_hamming_params data_bits_count =
     (let standard_parity_bits = standard_parity_loop data_bits_count 0;
          overall_parity_bit = 1;
          total_parity_bits = standard_parity_bits + overall_parity_bit;
          total_code_length = data_bits_count + total_parity_bits
      in (total_parity_bits, total_code_length))"

text \<open>
  One pass of the loop that places the data bits: the state is the codeword under
  construction and \<open>data_idx\<close>; \<open>pos_1idx\<close> runs over \<open>1..n\<close>.
\<close>

definition place_data_step :: "int list \<Rightarrow> nat \<Rightarrow> int list \<times> nat \<Rightarrow> int list \<times> nat" where
  "place_data_step data pos_1idx st =
     (case st of (hamming_code, data_idx) \<Rightarrow>
        if pos_1idx AND (pos_1idx - 1) \<noteq> 0 then
          (if data_idx < length data
           then (hamming_code[pos_1idx - 1 := data ! data_idx], data_idx + 1)
           else (hamming_code, data_idx))
        else (hamming_code, data_idx))"

text \<open>The inner loop of one parity bit: XOR of the covered positions other than its own.\<close>

definition parity_of_group :: "nat \<Rightarrow> nat \<Rightarrow> int list \<Rightarrow> int" where
  "parity_of_group n i hamming_code =
     fold (\<lambda>bit_pos_1idx parity.
             if drop_bit i bit_pos_1idx AND 1 \<noteq> 0 then
               (if bit_pos_1idx \<noteq> push_bit i 1
                then parity XOR hamming_code ! (bit_pos_1idx - 1)
                else parity)
             else parity)
          [1..<n + 1] 0"

definition parity_step :: "nat \<Rightarrow> nat \<Rightarrow> int list \<Rightarrow> int list" where
  "parity_step n i hamming_code =
     (let parity_pos_1idx = push_bit i 1 in
      if parity_pos_1idx \<le> n
      then hamming_code[parity_pos_1idx - 1 := parity_of_group n i hamming_code]
      else hamming_code)"

definition calculate_hamming_parity_bits :: "int list \<Rightarrow> int list" where
  "calculate_hamming_parity_bits data =
     (let m = length data;
          standard_parity_bits = standard_parity_loop m 0;
          overall_parity_bit = 1;
          total_parity_bits = standard_parity_bits + overall_parity_bit;
          n = m + total_parity_bits;
          hamming_code0 = replicate n 0;
          hamming_code1 = fst (fold (place_data_step data) [1..<n + 1] (hamming_code0, 0));
          hamming_code2 = fold (parity_step n) [0..<standard_parity_bits] hamming_code1;
          overall_parity = fold (\<lambda>i p. p XOR hamming_code2 ! i) [0..<n - 1] 0
      in hamming_code2[n - 1 := overall_parity])"

definition hamming_encode :: "int list \<Rightarrow> int list" where
  "hamming_encode data_bits = calculate_hamming_parity_bits data_bits"

text \<open>The syndrome and the overall parity, as both decoders compute them.\<close>

definition syndrome_of :: "int list \<Rightarrow> nat" where
  "syndrome_of encoded_bits =
     fold (\<lambda>i syndrome. if encoded_bits ! i \<noteq> 0 then syndrome XOR (i + 1) else syndrome)
          [0..<length encoded_bits] 0"

definition total_parity_of :: "int list \<Rightarrow> int" where
  "total_parity_of encoded_bits = fold (\<lambda>bit total_parity. total_parity XOR bit) encoded_bits 0"

text \<open>
  The classification of both decoders: the codeword after the correction attempt, and
  the flags \<open>error_corrected\<close> and \<open>double_error\<close>.
\<close>

definition classify :: "int list \<Rightarrow> int list \<times> bool \<times> bool" where
  "classify encoded_bits =
     (let n = length encoded_bits;
          syndrome = syndrome_of encoded_bits;
          total_parity = total_parity_of encoded_bits
      in if syndrome = 0 \<and> total_parity = 0 then (encoded_bits, False, False)
         else if syndrome \<noteq> 0 \<and> total_parity = 1 then
           (if syndrome \<le> n
            then (encoded_bits[syndrome - 1 := encoded_bits ! (syndrome - 1) XOR 1], True, False)
            else (encoded_bits, True, False))
         else if syndrome \<noteq> 0 \<and> total_parity = 0 then (encoded_bits, False, True)
         else (encoded_bits, False, True))"

text \<open>\<open>hamming_decode\<close> of 3\_LAB/main\_app.py: the last position is not a data bit.\<close>

definition hamming_decode :: "int list \<Rightarrow> int list \<times> bool \<times> bool" where
  "hamming_decode encoded_bits =
     (let n = length encoded_bits in
      case classify encoded_bits of (bits, error_corrected, double_error) \<Rightarrow>
        (map (\<lambda>i. bits ! i)
             (filter (\<lambda>i. (i + 1) AND ((i + 1) - 1) \<noteq> 0 \<and> i + 1 \<noteq> n) [0..<n]),
         error_corrected, double_error))"

text \<open>\<open>hamming_decode\<close> of 4\_LAB/hamming\_functions.py: only powers of two are skipped.\<close>

definition hamming_decode_lab4 :: "int list \<Rightarrow> int list \<times> bool \<times> bool" where
  "hamming_decode_lab4 encoded_bits =
     (let n = length encoded_bits in
      case classify encoded_bits of (bits, error_corrected, double_error) \<Rightarrow>
        (map (\<lambda>i. bits ! i)
             (filter (\<lambda>i. (i + 1) AND ((i + 1) - 1) \<noteq> 0) [0..<n]),
         error_corrected, double_error))"

section \<open>Framing constants and byte stuffing (3\_LAB/main\_app.py, 4\_LAB/main\_app.py)\<close>

type_synonym byte = "8 word"

definition N :: nat where
  "N = 9"

definition DATA_LENGTH :: nat where
  "DATA_LENGTH = N + 1"

definition FLAG_START :: byte where
  "FLAG_START = 0x40"

definition FLAG_END :: byte where
  "FLAG_END = of_nat (97 + N - 1)"

definition FLAG :: "byte list" where
  "FLAG = [FLAG_START] @ [FLAG_END]"

definition DEST_ADDR :: "byte list" where
  "DEST_ADDR = [0x00]"

definition ESC :: byte where
  "ESC = 0x1B"

text \<open>The two dictionaries, as association lists in insertion order.\<close>

definition STUFF_MAP :: "(byte \<times> byte list) list" where
  "STUFF_MAP =
     [(FLAG_START, [ESC] @ [FLAG_START]),
      (FLAG_END, [ESC] @ [FLAG_END]),
      (ESC, [ESC] @ [ESC])]"

definition UNSTUFF_MAP :: "(byte list \<times> byte) list" where
  "UNSTUFF_MAP = map (\<lambda>(k, v). (v, k)) STUFF_MAP"

text \<open>The stuffing loop of \<open>prepare_data\<close>, one byte at a time, left to right.\<close>

fun stuff :: "byte list \<Rightarrow> byte list" where
  "stuff [] = []"
| "stuff (byte # chunk) =
     (case map_of STUFF_MAP byte of
        Some escaped \<Rightarrow> escaped @ stuff chunk
      | None \<Rightarrow> byte # stuff chunk)"

text \<open>
  The de-stuffing loop of \<open>on_data_received_1\<close>: the index \<open>i\<close> of the source is the
  start of the remaining suffix.
\<close>

fun destuff :: "byte list \<Rightarrow> byte list" where
  "destuff [] = []"
| "destuff [b] = [b]"
| "destuff (a # b # raw_data) =
     (case map_of UNSTUFF_MAP [a, b] of
        Some original \<Rightarrow> original # destuff raw_data
      | None \<Rightarrow> a # destuff (b # raw_data))"

section \<open>Frame check sequence (3\_LAB/main\_app.py)\<close>

text \<open>
  \<open>fcs_bits_count\<close> and \<open>FCS_LENGTH\<close> as the constructor computes them from
  \<open>DATA_LENGTH\<close>.
\<close>

definition fcs_bits_count :: nat where
  "fcs_bits_count = standard_parity_loop (DATA_LENGTH * 8) 0 + 1"

definition FCS_LENGTH :: nat where
  "FCS_LENGTH = (fcs_bits_count + 7) div 8"

text \<open>Bytes to bits, most significant bit first: \<^verbatim>\<open>(byte >> i) & 1\<close> for \<open>i = 7, ..., 0\<close>.\<close>

definition bytes_to_bits :: "byte list \<Rightarrow> int list" where
  "bytes_to_bits data_bytes =
     concat (map (\<lambda>byte. map (\<lambda>i. uint (drop_bit i byte AND 1)) (rev [0..<8])) data_bytes)"

text \<open>
  Bits to byte values: one value for each \<open>i\<close> in \<^verbatim>\<open>range(0, len(bits), 8)\<close>, built
  by \<^verbatim>\<open>byte_val |= bits[i + j] << (7 - j)\<close>.
\<close>

definition pack_byte :: "int list \<Rightarrow> nat \<Rightarrow> int" where
  "pack_byte bits i =
     fold (\<lambda>j byte_val.
             if i + j < length bits then byte_val OR push_bit (7 - j) (bits ! (i + j))
             else byte_val)
          [0..<min 8 (length bits - i)] 0"

definition bits_to_byte_values :: "int list \<Rightarrow> int list" where
  "bits_to_byte_values bits =
     map (\<lambda>k. pack_byte bits (8 * k)) [0..<(length bits + 7) div 8]"

text \<open>
  \<^verbatim>\<open>bytes(values)\<close>: the values are built from bits 0 and 1 and lie in \<open>0..255\<close>, where
  \<open>of_int\<close> is exact.
\<close>

definition to_bytes :: "int list \<Rightarrow> byte list" where
  "to_bytes values = map of_int values"

definition calculate_fcs :: "byte list \<Rightarrow> byte list" where
  "calculate_fcs data_bytes =
     (let data_bits = bytes_to_bits data_bytes;
          encoded_bits = hamming_encode data_bits;
          fcs_bytes = bits_to_byte_values encoded_bits;
          padded = fcs_bytes @ replicate (FCS_LENGTH - length fcs_bytes) 0
      in to_bytes (take FCS_LENGTH padded))"

text \<open>The loop of \<open>verify_fcs\<close> that writes the received FCS bits to the power-of-two positions.\<close>

definition place_fcs_step :: "int list \<Rightarrow> nat \<Rightarrow> int list \<times> nat \<Rightarrow> int list \<times> nat" where
  "place_fcs_step fcs_bits pos st =
     (case st of (received_codeword, fcs_idx) \<Rightarrow>
        if pos AND (pos - 1) = 0 then
          (if fcs_idx < length fcs_bits
           then (received_codeword[pos - 1 := fcs_bits ! fcs_idx], fcs_idx + 1)
           else (received_codeword, fcs_idx))
        else (received_codeword, fcs_idx))"

definition received_codeword_of :: "byte list \<Rightarrow> byte list \<Rightarrow> int list" where
  "received_codeword_of received_data received_fcs =
     (let data_bits = bytes_to_bits received_data;
          fcs_bits = bytes_to_bits received_fcs;
          total_length = snd (get_sec_ded_hamming_params (length data_bits));
          received_codeword0 = replicate total_length 0;
          received_codeword1 =
            fst (fold (place_data_step data_bits) [1..<total_length + 1] (received_codeword0, 0))
      in fst (fold (place_fcs_step fcs_bits) [1..<total_length + 1] (received_codeword1, 0)))"

definition verify_fcs :: "byte list \<Rightarrow> byte list \<Rightarrow> byte list \<times> bool \<times> bool" where
  "verify_fcs received_data received_fcs =
     (case hamming_decode (received_codeword_of received_data received_fcs) of
        (corrected_data_bits, corrected, double_error) \<Rightarrow>
          (to_bytes (bits_to_byte_values corrected_data_bits), corrected, double_error))"

section \<open>Frame assembly (\<open>prepare_data\<close>)\<close>

text \<open>
  The outcome of the random draws of \<open>apply_bit_corruption\<close>: nothing (\<open>rand_val\<close> at
  least 0.65), one bit, or two bits at different places (the second place is the one on
  which the redraw loop of the source stops).
\<close>

datatype corruption = NoCorruption | SingleBit nat nat | DoubleBit nat nat nat nat

definition flip_bit_at :: "nat \<Rightarrow> nat \<Rightarrow> byte list \<Rightarrow> byte list" where
  "flip_bit_at byte_idx bit_idx data = data[byte_idx := data ! byte_idx XOR push_bit bit_idx 1]"

fun apply_bit_corruption :: "corruption \<Rightarrow> byte list \<Rightarrow> byte list" where
  "apply_bit_corruption NoCorruption data = data"
| "apply_bit_corruption (SingleBit byte_idx bit_idx) data = flip_bit_at byte_idx bit_idx data"
| "apply_bit_corruption (DoubleBit byte_idx1 bit_idx1 byte_idx2 bit_idx2) data =
     flip_bit_at byte_idx2 bit_idx2 (flip_bit_at byte_idx1 bit_idx1 data)"

text \<open>\<^verbatim>\<open>bytes([source_port_num])\<close>, and \<^verbatim>\<open>b'\x00'\<close> when that raises ValueError.\<close>

definition source_addr_of :: "int \<Rightarrow> byte list" where
  "source_addr_of source_port_num =
     (if 0 \<le> source_port_num \<and> source_port_num < 256 then [of_int source_port_num]
      else [0x00])"

text \<open>\<^verbatim>\<open>[data_bytes[i:i + DATA_LENGTH] for i in range(0, len(data_bytes), DATA_LENGTH)]\<close>\<close>

definition chunks_of :: "byte list \<Rightarrow> byte list list" where
  "chunks_of data_bytes =
     map (\<lambda>k. take DATA_LENGTH (drop (k * DATA_LENGTH) data_bytes))
         [0..<(length data_bytes + DATA_LENGTH - 1) div DATA_LENGTH]"

definition pad_chunk :: "byte list \<Rightarrow> byte list" where
  "pad_chunk chunk =
     (if length chunk < DATA_LENGTH
      then chunk @ replicate (DATA_LENGTH - length chunk) 0x00
      else chunk)"

text \<open>
  Steps 2 to 5 of the loop body of \<open>prepare_data\<close> of 3\_LAB: padding, FCS of the
  intact chunk, corruption, stuffing of data and FCS. The result is the stuffed region of
  the frame, the variable \<open>stuffed_data_with_fcs\<close>.
\<close>

definition stuffed_data_with_fcs :: "corruption \<Rightarrow> byte list \<Rightarrow> byte list" where
  "stuffed_data_with_fcs draw chunk0 =
     (let chunk = pad_chunk chunk0;
          fcs = calculate_fcs chunk;
          corrupted_chunk = apply_bit_corruption draw chunk;
          data_with_fcs = corrupted_chunk @ fcs
      in stuff data_with_fcs)"

text \<open>Step 6: the header in front of the stuffed region.\<close>

definition prepare_frame :: "corruption \<Rightarrow> byte list \<Rightarrow> byte list \<Rightarrow> byte list" where
  "prepare_frame draw source_addr chunk0 =
     FLAG @ source_addr @ DEST_ADDR @ stuffed_data_with_fcs draw chunk0"

text \<open>
  \<open>prepare_data\<close> of 3\_LAB on the UTF-8 bytes of the text; \<open>draws i\<close> is the corruption
  drawn for chunk \<open>i\<close>.
\<close>

definition prepare_data :: "(nat \<Rightarrow> corruption) \<Rightarrow> byte list \<Rightarrow> int \<Rightarrow> byte list list" where
  "prepare_data draws data_bytes source_port_num =
     (let source_addr = source_addr_of source_port_num;
          chunks = chunks_of data_bytes
      in map (\<lambda>i. prepare_frame (draws i) source_addr (chunks ! i)) [0..<length chunks])"

text \<open>
  The loop body of \<open>prepare_data\<close> of 4\_LAB: padding and stuffing give the stuffed
  region \<open>stuffed_data\<close>, there is no FCS; then the header.
\<close>

definition stuffed_data :: "byte list \<Rightarrow> byte list" where
  "stuffed_data chunk0 = (let chunk = pad_chunk chunk0 in stuff chunk)"

definition prepare_frame_lab4 :: "byte list \<Rightarrow> byte list \<Rightarrow> byte list" where
  "prepare_frame_lab4 source_addr chunk0 =
     FLAG @ source_addr @ DEST_ADDR @ stuffed_data chunk0"

definition prepare_data_lab4 :: "byte list \<Rightarrow> int \<Rightarrow> byte list list" where
  "prepare_data_lab4 data_bytes source_port_num =
     (let source_addr = source_addr_of source_port_num;
          chunks = chunks_of data_bytes
      in map (\<lambda>chunk. prepare_frame_lab4 source_addr chunk) chunks)"

section \<open>Receive path (\<open>on_data_received_1\<close>)\<close>

text \<open>\<^verbatim>\<open>bytearray.find\<close>: the lowest index of an occurrence, \<open>None\<close> for \<open>-1\<close>.\<close>

fun find_bytes :: "byte list \<Rightarrow> byte list \<Rightarrow> nat option" where
  "find_bytes sub [] = (if sub = [] then Some 0 else None)"
| "find_bytes sub (b # buf) =
     (if take (length sub) (b # buf) = sub then Some 0
      else map_option Suc (find_bytes sub buf))"

text \<open>\<^verbatim>\<open>rstrip(b'\x00')\<close>\<close>

definition rstrip_zeros :: "byte list \<Rightarrow> byte list" where
  "rstrip_zeros bs = rev (dropWhile (\<lambda>b. b = 0x00) (rev bs))"

text \<open>
  What the handler of 3\_LAB hands to the output for one parsed frame: source address,
  the data returned by \<open>verify_fcs\<close> with its two flags, and the payload the text is
  decoded from.
\<close>

record packet =
  source_addr :: "byte list"
  corrected_data :: "byte list"
  corrected :: bool
  double_error :: bool
  cleaned_payload :: "byte list"

record rx_state =
  rx_buffer :: "byte list"
  delivered :: "packet list"

text \<open>
  One pass of the \<^verbatim>\<open>while True\<close> loop of 3\_LAB: \<open>(False, st)\<close> is a \<^verbatim>\<open>return\<close>,
  \<open>(True, st)\<close> reaches the end of the loop body.
\<close>

definition rx_pass :: "rx_state \<Rightarrow> bool \<times> rx_state" where
  "rx_pass st =
     (let buf = rx_buffer st in
      case find_bytes FLAG buf of
        None \<Rightarrow>
          (False, if length buf > 100 then st\<lparr>rx_buffer := drop (length buf - 50) buf\<rparr> else st)
      | Some start_index \<Rightarrow>
          (let min_frame_size = 4 + DATA_LENGTH + FCS_LENGTH in
           if length buf - start_index < min_frame_size then (False, st)
           else
             (let potential_frame = drop start_index buf;
                  source_addr = take 1 (drop 2 potential_frame);
                  raw_data_with_fcs = drop 4 potential_frame;
                  unstuffed_data_with_fcs = destuff raw_data_with_fcs
              in if length unstuffed_data_with_fcs < DATA_LENGTH + FCS_LENGTH then (False, st)
                 else
                   (let received_data = take DATA_LENGTH unstuffed_data_with_fcs;
                        received_fcs = take FCS_LENGTH (drop DATA_LENGTH unstuffed_data_with_fcs);
                        actual_frame_size = 4 + length raw_data_with_fcs;
                        next_frame_start = start_index + actual_frame_size;
                        buf' = (if next_frame_start \<le> length buf then drop next_frame_start buf
                                else [])
                    in case verify_fcs received_data received_fcs of
                         (data, was_corrected, is_double_error) \<Rightarrow>
                           (True,
                            st\<lparr>rx_buffer := buf',
                               delivered := delivered st @
                                 [\<lparr>source_addr = source_addr, corrected_data = data,
                                   corrected = was_corrected, double_error = is_double_error,
                                   cleaned_payload = rstrip_zeros data\<rparr>]\<rparr>)))))"

text \<open>The handler of 4\_LAB delivers the received data as they are.\<close>

record packet_lab4 =
  source_addr_lab4 :: "byte list"
  received_data_lab4 :: "byte list"
  cleaned_payload_lab4 :: "byte list"

record rx_state_lab4 =
  rx_buffer_lab4 :: "byte list"
  delivered_lab4 :: "packet_lab4 list"

definition rx_pass_lab4 :: "rx_state_lab4 \<Rightarrow> bool \<times> rx_state_lab4" where
  "rx_pass_lab4 st =
     (let buf = rx_buffer_lab4 st in
      case find_bytes FLAG buf of
        None \<Rightarrow>
          (False,
           if length buf > 100 then st\<lparr>rx_buffer_lab4 := drop (length buf - 50) buf\<rparr> else st)
      | Some start_index \<Rightarrow>
          (let min_frame_size = 4 + DATA_LENGTH in
           if length buf - start_index < min_frame_size then (False, st)
           else
             (let potential_frame = drop start_index buf;
                  source_addr = take 1 (drop 2 potential_frame);
                  raw_data = drop 4 potential_frame;
                  unstuffed_data = destuff raw_data;
                  expected_data_len = DATA_LENGTH
              in if length unstuffed_data < expected_data_len then (False, st)
                 else
                   (let received_data = take expected_data_len unstuffed_data;
                        actual_frame_size = 4 + length raw_data;
                        next_frame_start = start_index + actual_frame_size;
                        buf' = (if next_frame_start \<le> length buf then drop next_frame_start buf
                                else [])
                    in (True,
                        st\<lparr>rx_buffer_lab4 := buf',
                           delivered_lab4 := delivered_lab4 st @
                             [\<lparr>source_addr_lab4 = source_addr,
                               received_data_lab4 = received_data,
                               cleaned_payload_lab4 = rstrip_zeros received_data\<rparr>]\<rparr>)))))"

text \<open>
  A pass that reaches the end of the loop body leaves a shorter buffer, so the
  \<^verbatim>\<open>while True\<close> loop of either handler ends.
\<close>

lemma rx_pass_shrinks:
  "rx_pass st = (True, st') \<Longrightarrow> length (rx_buffer st') < length (rx_buffer st)"
  by (auto simp: rx_pass_def Let_def split: option.splits if_splits prod.splits)

lemma rx_pass_lab4_shrinks:
  "rx_pass_lab4 st = (True, st') \<Longrightarrow>
   length (rx_buffer_lab4 st') < length (rx_buffer_lab4 st)"
  by (auto simp: rx_pass_lab4_def Let_def split: option.splits if_splits prod.splits)

function rx_loop :: "rx_state \<Rightarrow> rx_state" where
  "rx_loop st = (case rx_pass st of (True, st') \<Rightarrow> rx_loop st' | (False, st') \<Rightarrow> st')"
  by pat_completeness auto

termination
proof (relation "measure (\<lambda>st. length (rx_buffer st))")
  show "wf (measure (\<lambda>st. length (rx_buffer st)))"
    by simp
next
  fix st :: rx_state and continue st'
  assume "(continue, st') = rx_pass st" and "continue = True"
  then have "rx_pass st = (True, st')"
    by simp
  then show "(st', st) \<in> measure (\<lambda>st. length (rx_buffer st))"
    by (simp add: rx_pass_shrinks)
qed

definition on_data_received_1 :: "rx_state \<Rightarrow> byte list \<Rightarrow> rx_state" where
  "on_data_received_1 st data_bytes = rx_loop (st\<lparr>rx_buffer := rx_buffer st @ data_bytes\<rparr>)"

function rx_loop_lab4 :: "rx_state_lab4 \<Rightarrow> rx_state_lab4" where
  "rx_loop_lab4 st =
     (case rx_pass_lab4 st of (True, st') \<Rightarrow> rx_loop_lab4 st' | (False, st') \<Rightarrow> st')"
  by pat_completeness auto

termination
proof (relation "measure (\<lambda>st. length (rx_buffer_lab4 st))")
  show "wf (measure (\<lambda>st. length (rx_buffer_lab4 st)))"
    by simp
next
  fix st :: rx_state_lab4 and continue st'
  assume "(continue, st') = rx_pass_lab4 st" and "continue = True"
  then have "rx_pass_lab4 st = (True, st')"
    by simp
  then show "(st', st) \<in> measure (\<lambda>st. length (rx_buffer_lab4 st))"
    by (simp add: rx_pass_lab4_shrinks)
qed

definition on_data_received_1_lab4 :: "rx_state_lab4 \<Rightarrow> byte list \<Rightarrow> rx_state_lab4" where
  "on_data_received_1_lab4 st data_bytes =
     rx_loop_lab4 (st\<lparr>rx_buffer_lab4 := rx_buffer_lab4 st @ data_bytes\<rparr>)"

section \<open>CSMA/CD transmitter (4\_LAB/main\_app.py, \<open>CSMACDTransmitter\<close>)\<close>

text \<open>
  The constants of the constructor, the contention window of \<open>generate_backoff_time\<close>
  (its lines computing \<open>k\<close> and \<open>cw\<close>) and the delay in milliseconds. The uniform
  draw \<^verbatim>\<open>random.randint(0, cw)\<close> is the parameter \<open>randint\<close>.

  The random outcomes of one run are a \<open>channel\<close>: the result of the k-th call of
  \<open>listen_channel\<close>, of \<open>detect_collision\<close>, whether the k-th \<^verbatim>\<open>port.write\<close>
  raises, and the k-th \<^verbatim>\<open>random.randint\<close>. The state counts the calls made, holds the two
  counters of the loop, the bytes written to the port and the time slept (in
  milliseconds). Reading \<^verbatim>\<open>port.in_waiting\<close> and flushing the input change none of
  these; they stand outside the \<^verbatim>\<open>try\<close> block, so an exception there leaves the
  function, which is the result \<open>Raised\<close>. \<open>in_waiting_raises ch k\<close> says whether that
  happens in the pass that makes the k-th call of \<open>listen_channel\<close>, and
  \<open>port_is_open ch k\<close> is the test \<^verbatim>\<open>self.port and self.port.is_open\<close> of the k-th
  jam signal.

  \<open>attempt_log\<close> is a history of the call: the outcome of every pass through the
  \<^verbatim>\<open>for\<close> loop, that is of every transmission attempt, in order. The code does not
  store it; the properties of the attempts are stated on it.

  \<open>send_bytes\<close> is the \<^verbatim>\<open>for\<close> loop over the frame: \<open>Completed\<close> is its
  \<^verbatim>\<open>else\<close> clause, \<open>Collided\<close> its \<^verbatim>\<open>break\<close>, \<open>WriteError\<close> an exception of the write
  (caught by the \<^verbatim>\<open>except\<close> clause of the caller). \<open>csma_cd_loop\<close> is the
  \<^verbatim>\<open>while retry_count < max_retries\<close> loop; it need not end, so it is a partial
  function and \<open>None\<close> means that it runs forever.
\<close>

definition max_retries :: nat where
  "max_retries = 16"

definition max_backoff_exp :: nat where
  "max_backoff_exp = 10"

definition cw_min :: int where
  "cw_min = 7"

definition cw_max :: int where
  "cw_max = 1023"

definition contention_window :: "nat \<Rightarrow> int" where
  "contention_window collision_count =
     (let k = min collision_count max_backoff_exp;
          cw = min (2 ^ k - 1) cw_max
      in max cw_min cw)"

definition generate_backoff_time :: "(int \<Rightarrow> int \<Rightarrow> int) \<Rightarrow> nat \<Rightarrow> int" where
  "generate_backoff_time randint collision_count =
     (let cw = contention_window collision_count;
          random_slots = randint 0 cw
      in random_slots * 5)"

record channel =
  in_waiting_raises :: "nat \<Rightarrow> bool"
  listen_channel :: "nat \<Rightarrow> bool"
  detect_collision :: "nat \<Rightarrow> bool"
  write_raises :: "nat \<Rightarrow> bool"
  port_is_open :: "nat \<Rightarrow> bool"
  random_randint :: "nat \<Rightarrow> int \<Rightarrow> int \<Rightarrow> int"

datatype attempt = Completed | Collided | WriteError

record tx_state =
  collision_count :: nat
  retry_count :: nat
  listens :: nat
  detects :: nat
  writes :: nat
  jams :: nat
  draws :: nat
  port_data :: "byte list"
  slept_ms :: int
  attempt_log :: "attempt list"

definition send_jam_signal :: "channel \<Rightarrow> tx_state \<Rightarrow> tx_state" where
  "send_jam_signal ch st =
     (let st1 = st\<lparr>jams := jams st + 1\<rparr> in
      if port_is_open ch (jams st) then
        (if write_raises ch (writes st1) then st1\<lparr>writes := writes st1 + 1\<rparr>
         else st1\<lparr>writes := writes st1 + 1, port_data := port_data st1 @ replicate 4 0xFF\<rparr>)
      else st1)"

fun send_bytes :: "channel \<Rightarrow> byte list \<Rightarrow> tx_state \<Rightarrow> attempt \<times> tx_state" where
  "send_bytes ch [] st = (Completed, st)"
| "send_bytes ch (byte # rest) st =
     (let collision = detect_collision ch (detects st);
          st1 = st\<lparr>detects := detects st + 1\<rparr>
      in if collision then
           (let st2 = send_jam_signal ch st1;
                st3 = st2\<lparr>collision_count := collision_count st2 + 1,
                          retry_count := retry_count st2 + 1\<rparr>;
                backoff_time = generate_backoff_time (random_randint ch (draws st3)) (collision_count st3)
            in (Collided, st3\<lparr>draws := draws st3 + 1, slept_ms := slept_ms st3 + backoff_time\<rparr>))
         else if write_raises ch (writes st1) then (WriteError, st1\<lparr>writes := writes st1 + 1\<rparr>)
         else send_bytes ch rest
                (st1\<lparr>writes := writes st1 + 1, port_data := port_data st1 @ [byte],
                     slept_ms := slept_ms st1 + 1\<rparr>))"

datatype tx_result = Returned bool | Raised

partial_function (option) csma_cd_loop ::
  "channel \<Rightarrow> byte list \<Rightarrow> tx_state \<Rightarrow> (tx_result \<times> tx_state) option" where
  "csma_cd_loop ch data st =
     (if retry_count st < max_retries then
        (if in_waiting_raises ch (listens st) then Some (Raised, st)
         else if listen_channel ch (listens st)
         then csma_cd_loop ch data (st\<lparr>listens := listens st + 1, slept_ms := slept_ms st + 10\<rparr>)
         else
           (case send_bytes ch data (st\<lparr>listens := listens st + 1\<rparr>) of
              (Completed, st') \<Rightarrow>
                Some (Returned True, st'\<lparr>attempt_log := attempt_log st' @ [Completed]\<rparr>)
            | (Collided, st') \<Rightarrow>
                csma_cd_loop ch data (st'\<lparr>attempt_log := attempt_log st' @ [Collided]\<rparr>)
            | (WriteError, st') \<Rightarrow>
                csma_cd_loop ch data
                  (st'\<lparr>retry_count := retry_count st' + 1, slept_ms := slept_ms st' + 100,
                       attempt_log := attempt_log st' @ [WriteError]\<rparr>)))
      else Some (Returned False, st))"

definition transmit_with_csma_cd ::
  "channel \<Rightarrow> byte list \<Rightarrow> tx_state \<Rightarrow> (tx_result \<times> tx_state) option" where
  "transmit_with_csma_cd ch data st =
     csma_cd_loop ch data (st\<lparr>collision_count := 0, retry_count := 0, attempt_log := []\<rparr>)"

declare csma_cd_loop.simps [code]


definition all_collide :: channel where
  "all_collide =
     \<lparr>in_waiting_raises = (\<lambda>k. False), listen_channel = (\<lambda>k. odd k),
      detect_collision = (\<lambda>k. True),
      write_raises = (\<lambda>k. False), port_is_open = (\<lambda>k. True),
      random_randint = (\<lambda>k a b. b)\<rparr>"

text \<open>One collision, at the first check, and none afterwards.\<close>

definition first_check_collides :: channel where
  "first_check_collides =
     \<lparr>in_waiting_raises = (\<lambda>k. False), listen_channel = (\<lambda>k. False),
      detect_collision = (\<lambda>k. k = 0),
      write_raises = (\<lambda>k. False), port_is_open = (\<lambda>k. True),
      random_randint = (\<lambda>k a b. b)\<rparr>"


definition state0 :: tx_state where
  "state0 =
     \<lparr>collision_count = 0, retry_count = 0, listens = 0, detects = 0, writes = 0,
      jams = 0, draws = 0, port_data = [], slept_ms = 0, attempt_log = []\<rparr>"


section \<open>Properties of the Hamming codec\<close>

lemma syndrome_fold_cong:
  "\<forall>i < n. xs ! i = ys ! i \<Longrightarrow>
   fold (\<lambda>i syndrome. if xs ! i \<noteq> (0::int) then syndrome XOR (i + 1) else syndrome) [0..<n] s =
   fold (\<lambda>i syndrome. if ys ! i \<noteq> 0 then syndrome XOR (i + 1) else syndrome) [0..<n] (s::nat)"
  by (rule fold_cong) auto

lemma syndrome_prefix:
  "fold (\<lambda>i syndrome. if (body @ [b]) ! i \<noteq> 0 then syndrome XOR (i + 1) else syndrome)
        [0..<length body] 0 = syndrome_of body"
  unfolding syndrome_of_def by (rule syndrome_fold_cong) (simp add: nth_append)

lemma syndrome_of_snoc:
  "syndrome_of (body @ [b]) =
     (if b \<noteq> 0 then syndrome_of body XOR (length body + 1) else syndrome_of body)"
proof -
  have "syndrome_of (body @ [b]) =
      (if (body @ [b]) ! length body \<noteq> 0
       then fold (\<lambda>i syndrome. if (body @ [b]) ! i \<noteq> 0 then syndrome XOR (i + 1) else syndrome)
              [0..<length body] 0 XOR (length body + 1)
       else fold (\<lambda>i syndrome. if (body @ [b]) ! i \<noteq> 0 then syndrome XOR (i + 1) else syndrome)
              [0..<length body] 0)"
    by (simp add: syndrome_of_def)
  then show ?thesis
    by (simp only: syndrome_prefix nth_append_length)
qed

text \<open>
  The syndrome loop of the decoder runs over every position, the last one included: a
  word whose first \<open>n - 1\<close> positions have syndrome 0 and whose overall parity bit is 1
  has syndrome \<open>n\<close>, and with even total parity it is reported as a double error.
\<close>

lemma overall_parity_bit_in_syndrome:
  assumes "syndrome_of body = 0" and "total_parity_of (body @ [1]) = 0"
  shows "snd (hamming_decode (body @ [1])) = (False, True)"
proof -
  have "syndrome_of (body @ [1]) = length body + 1"
    using assms(1) by (simp add: syndrome_of_snoc)
  then show ?thesis
    using assms(2) by (simp add: hamming_decode_def classify_def Let_def)
qed

lemma decoders_same_flags: "snd (hamming_decode_lab4 w) = snd (hamming_decode w)"
  by (simp add: hamming_decode_def hamming_decode_lab4_def Let_def split: prod.splits)

text \<open>
  C1. The round trip \<open>hamming_decode (hamming_encode d) = (d, False, False)\<close> fails
  for the single data bit 1: the codeword is \<open>[1, 1, 1, 1]\<close>, its overall parity bit is
  set, the decoder's syndrome loop also runs over that last position and reports a
  double error.
\<close>

theorem hamming_roundtrip_one_bit:
  "hamming_encode [1] = [1, 1, 1, 1] \<and>
   hamming_decode (hamming_encode [1]) = ([1], False, True)"
  by code_simp

text \<open>
  C3. With the data bit 1 and codeword position 3 (index 2) flipped, the decoder
  reports a corrected single error and returns the wrong data bit 0.
\<close>

theorem hamming_single_flip_one_bit:
  "hamming_decode ((hamming_encode [1])[2 := hamming_encode [1] ! 2 XOR 1])
     = ([0], True, False)"
  by code_simp

text \<open>
  C4. With data \<open>[1, 0]\<close> and codeword positions 2 and 4 (indices 1 and 3) flipped,
  the decoder reports no error at all.
\<close>

theorem hamming_double_flip_two_bits:
  "hamming_decode ((hamming_encode [1, 0])
      [1 := hamming_encode [1, 0] ! 1 XOR 1, 3 := hamming_encode [1, 0] ! 3 XOR 1])
     = ([1, 0], False, False)"
  by code_simp

text \<open>
  C10. On the codeword of the data \<open>[1, 1]\<close> the decoder of 3\_LAB returns the two data
  bits, the decoder of 4\_LAB/hamming\_functions.py returns three: it also returns the
  overall parity bit of the last position.
\<close>

theorem hamming_decode_lab4_extra_bit:
  "hamming_decode (hamming_encode [1, 1]) = ([1, 1], False, False) \<and>
   hamming_decode_lab4 (hamming_encode [1, 1]) = ([1, 1, 0], False, False)"
  by code_simp

section \<open>Properties of byte stuffing\<close>

lemma map_of_STUFF_MAP:
  "map_of STUFF_MAP b =
     (if b = FLAG_START \<or> b = FLAG_END \<or> b = ESC then Some [ESC, b] else None)"
  by (simp add: STUFF_MAP_def FLAG_START_def FLAG_END_def ESC_def N_def)

lemma map_of_UNSTUFF_MAP:
  "map_of UNSTUFF_MAP [a, b] =
     (if a = ESC \<and> (b = FLAG_START \<or> b = FLAG_END \<or> b = ESC) then Some b else None)"
  by (simp add: UNSTUFF_MAP_def STUFF_MAP_def FLAG_START_def FLAG_END_def ESC_def N_def)

lemma destuff_plain: "a \<noteq> ESC \<Longrightarrow> destuff (a # ys) = a # destuff ys"
  by (cases ys) (simp_all add: map_of_UNSTUFF_MAP)

lemma destuff_escaped:
  "b = FLAG_START \<or> b = FLAG_END \<or> b = ESC \<Longrightarrow> destuff (ESC # b # ys) = b # destuff ys"
  by (simp add: map_of_UNSTUFF_MAP)

text \<open>
  C5. De-stuffing the stuffed form of any byte sequence gives the sequence back.
\<close>

theorem destuff_stuff: "destuff (stuff x) = x"
proof (induction x)
  case Nil
  show ?case by simp
next
  case (Cons b x)
  show ?case
  proof (cases "b = FLAG_START \<or> b = FLAG_END \<or> b = ESC")
    case True
    then have "stuff (b # x) = ESC # b # stuff x"
      by (simp add: map_of_STUFF_MAP)
    with True Cons show ?thesis
      by (simp only: destuff_escaped)
  next
    case False
    then have "stuff (b # x) = b # stuff x"
      by (simp add: map_of_STUFF_MAP)
    with False Cons show ?thesis
      by (simp add: destuff_plain)
  qed
qed


section \<open>Properties of the stuffed region of a frame\<close>


lemma length_stuff_Cons:
  "length (stuff (a # xs)) =
     (if a = FLAG_START \<or> a = FLAG_END \<or> a = ESC then 2 else 1) + length (stuff xs)"
  by (simp add: map_of_STUFF_MAP)
















text \<open>In 3\_LAB the differences 0, 1 and 2 all occur.\<close>

lemma stuffed_region_lab3_differences:
  "length (stuffed_data_with_fcs NoCorruption [0x08, 0x40, 0, 0, 0, 0, 0, 0, 0, 0])
     = length (stuffed_data_with_fcs NoCorruption [0x08, 0x41, 0, 0, 0, 0, 0, 0, 0, 0]) \<and>
   length (stuffed_data_with_fcs NoCorruption [0x40, 0, 0, 0, 0, 0, 0, 0, 0, 0])
     = length (stuffed_data_with_fcs NoCorruption [0x41, 0, 0, 0, 0, 0, 0, 0, 0, 0]) + 1 \<and>
   length (stuffed_data_with_fcs NoCorruption [0x01, 0x40, 0, 0, 0, 0, 0, 0, 0, 0])
     = length (stuffed_data_with_fcs NoCorruption [0x01, 0x41, 0, 0, 0, 0, 0, 0, 0, 0]) + 2"
  by code_simp

section \<open>Properties of the frame codec and the receive handlers\<close>

text \<open>
  C2. The payload \<open>Hi\<close>, zero-padded to ten bytes, sent from address 5 with no
  corruption drawn and received into an empty buffer: the address and the payload
  come back, but the frame is reported as a double error, not as valid. The FCS byte is
  the first byte of the codeword (\<open>calculate_fcs\<close> cuts the packed codeword to
  \<open>FCS_LENGTH\<close> bytes), while \<open>verify_fcs\<close> writes its bits to the parity positions.
\<close>

theorem frame_roundtrip_hi:
  "on_data_received_1 \<lparr>rx_buffer = [], delivered = []\<rparr>
     (prepare_frame NoCorruption [0x05] [0x48, 0x69, 0, 0, 0, 0, 0, 0, 0, 0])
   = \<lparr>rx_buffer = [],
      delivered = [\<lparr>source_addr = [0x05],
                    corrected_data = [0x48, 0x69, 0, 0, 0, 0, 0, 0, 0, 0],
                    corrected = False, double_error = True,
                    cleaned_payload = [0x48, 0x69]\<rparr>]\<rparr>"
  by code_simp

text \<open>
  A pass of the 4\_LAB handler that parses a frame takes everything after the header up
  to the end of the buffer as the frame, so it empties the buffer.
\<close>

lemma rx_pass_lab4_empties:
  "rx_pass_lab4 st = (True, st') \<Longrightarrow> rx_buffer_lab4 st' = []"
  by (auto simp: rx_pass_lab4_def Let_def split: option.splits if_splits prod.splits)

lemma rx_pass_empties:
  "rx_pass st = (True, st') \<Longrightarrow> rx_buffer st' = []"
  by (auto simp: rx_pass_def Let_def split: option.splits if_splits prod.splits)

text \<open>
  C6. Two complete frames of 4\_LAB (payloads \<open>AAAAAAAAAA\<close> and \<open>BBBBBBBBBB\<close>)
  arrive in one call on an empty buffer: only the first is delivered, and the buffer is
  empty afterwards, so the second frame is lost.
\<close>

theorem two_frames_one_delivered:
  "on_data_received_1_lab4 \<lparr>rx_buffer_lab4 = [], delivered_lab4 = []\<rparr>
     (prepare_frame_lab4 [0x05] [0x41, 0x41, 0x41, 0x41, 0x41, 0x41, 0x41, 0x41, 0x41, 0x41] @
      prepare_frame_lab4 [0x05] [0x42, 0x42, 0x42, 0x42, 0x42, 0x42, 0x42, 0x42, 0x42, 0x42])
   = \<lparr>rx_buffer_lab4 = [],
      delivered_lab4 =
        [\<lparr>source_addr_lab4 = [0x05],
          received_data_lab4 = [0x41, 0x41, 0x41, 0x41, 0x41, 0x41, 0x41, 0x41, 0x41, 0x41],
          cleaned_payload_lab4 = [0x41, 0x41, 0x41, 0x41, 0x41, 0x41, 0x41, 0x41, 0x41, 0x41]\<rparr>]\<rparr>"
  by code_simp

section \<open>Properties of the CSMA/CD transmitter\<close>

lemma contention_window_eq:
  "contention_window c = max 7 (min (2 ^ min c 10 - 1) 1023)"
  by (simp add: contention_window_def Let_def max_backoff_exp_def cw_min_def cw_max_def)

lemma contention_window_bounds: "7 \<le> contention_window c \<and> contention_window c \<le> 1023"
  unfolding contention_window_eq by (rule conjI) (rule max.cobounded1, rule max.boundedI, simp, rule min.cobounded2)

lemma contention_window_mono:
  assumes "c \<le> c'"
  shows "contention_window c \<le> contention_window c'"
proof -
  from assms have "min c 10 \<le> min c' 10"
    by (rule min.mono) (rule order_refl)
  then have "(2::int) ^ min c 10 \<le> 2 ^ min c' 10"
    by (rule power_increasing) simp
  then have "(2::int) ^ min c 10 - 1 \<le> 2 ^ min c' 10 - 1"
    by (rule diff_right_mono)
  then have "min ((2::int) ^ min c 10 - 1) 1023 \<le> min (2 ^ min c' 10 - 1) 1023"
    by (rule min.mono) (rule order_refl)
  then have "max (7::int) (min (2 ^ min c 10 - 1) 1023) \<le> max 7 (min (2 ^ min c' 10 - 1) 1023)"
    by (rule max.mono [OF order_refl])
  then show ?thesis
    by (simp only: contention_window_eq)
qed

text \<open>
  C8. With a draw that lies in the range it is asked for, the delay is the value drawn
  by \<open>randint 0 cw\<close> times 5, where the window \<open>cw\<close> passed to the draw is
  \<open>max 7 (min (2 ^ min c 10 - 1) 1023)\<close> for the collision count \<open>c\<close>; the drawn value
  lies between 0 and \<open>cw\<close>, so the delay lies between 0 and \<open>1023 * 5\<close>, and the window
  does not shrink when the collision count grows.
\<close>

theorem generate_backoff_time_range:
  assumes "\<forall>a b. a \<le> b \<longrightarrow> a \<le> randint a b \<and> randint a b \<le> b"
  shows "generate_backoff_time randint c
           = randint 0 (max 7 (min (2 ^ min c 10 - 1) 1023)) * 5 \<and>
         0 \<le> randint 0 (max 7 (min (2 ^ min c 10 - 1) 1023)) \<and>
         randint 0 (max 7 (min (2 ^ min c 10 - 1) 1023))
           \<le> max 7 (min (2 ^ min c 10 - 1) 1023) \<and>
         contention_window c = max 7 (min (2 ^ min c 10 - 1) 1023) \<and>
         0 \<le> generate_backoff_time randint c \<and>
         generate_backoff_time randint c \<le> 1023 * 5 \<and>
         (\<forall>c'. c \<le> c' \<longrightarrow> contention_window c \<le> contention_window c')"
proof -
  define cw :: int where "cw = max 7 (min (2 ^ min c 10 - 1) 1023)"
  have win: "contention_window c = cw"
    unfolding cw_def by (rule contention_window_eq)
  have cw: "7 \<le> cw" "cw \<le> 1023"
    using contention_window_bounds [of c] by (simp_all only: win)
  then have "0 \<le> cw"
    by linarith
  with assms have slots: "0 \<le> randint 0 cw" "randint 0 cw \<le> cw"
    by blast+
  have eq: "generate_backoff_time randint c = randint 0 cw * 5"
    by (simp only: generate_backoff_time_def Let_def win)
  have range: "0 \<le> randint 0 cw * 5" "randint 0 cw * 5 \<le> 1023 * 5"
    using slots cw by linarith+
  have "generate_backoff_time randint c = randint 0 cw * 5 \<and>
         0 \<le> randint 0 cw \<and> randint 0 cw \<le> cw \<and> contention_window c = cw \<and>
         0 \<le> generate_backoff_time randint c \<and>
         generate_backoff_time randint c \<le> 1023 * 5 \<and>
         (\<forall>c'. c \<le> c' \<longrightarrow> contention_window c \<le> contention_window c')"
  proof (intro conjI allI impI)
    show "generate_backoff_time randint c = randint 0 cw * 5"
      by (rule eq)
    show "0 \<le> randint 0 cw" and "randint 0 cw \<le> cw"
      by (rule slots)+
    show "contention_window c = cw"
      by (rule win)
    show "0 \<le> generate_backoff_time randint c"
      using range(1) by (simp only: eq)
    show "generate_backoff_time randint c \<le> 1023 * 5"
      using range(2) by (simp only: eq)
    show "contention_window c \<le> contention_window c'" if "c \<le> c'" for c'
      using that by (rule contention_window_mono)
  qed
  then show ?thesis
    unfolding cw_def .
qed

theorem generate_backoff_time_range_witness:
  "generate_backoff_time (\<lambda>a b. b) 4 = 15 * 5 \<and>
   contention_window 4 = 15 \<and>
   0 \<le> generate_backoff_time (\<lambda>a b. b) 4 \<and>
   generate_backoff_time (\<lambda>a b. b) 4 \<le> 1023 * 5 \<and>
   contention_window 4 \<le> contention_window 6"
proof -
  have h: "\<forall>a b :: int. a \<le> b \<longrightarrow> a \<le> (\<lambda>a b. b) a b \<and> (\<lambda>a b. b) a b \<le> b"
    by simp
  note range = generate_backoff_time_range [OF h, of 4]
  from range have delay: "generate_backoff_time (\<lambda>a b. b) 4 = 15 * 5"
    by simp
  from range have window: "contention_window 4 = 15"
    by simp
  from range have lower: "0 \<le> generate_backoff_time (\<lambda>a b. b) 4"
    by blast
  from range have upper: "generate_backoff_time (\<lambda>a b. b) 4 \<le> 1023 * 5"
    by blast
  from range have "\<forall>c'. 4 \<le> c' \<longrightarrow> contention_window 4 \<le> contention_window c'"
    by blast
  then have mono: "contention_window 4 \<le> contention_window 6"
    by simp
  from delay window lower upper mono show ?thesis
    by (intro conjI)
qed











text \<open>
  After a failed attempt the loop can still succeed: with a collision at the first check
  only, the second attempt sends the whole frame.
\<close>

lemma success_after_collision:
  "transmit_with_csma_cd first_check_collides [0x01, 0x02] state0 =
     Some (Returned True,
       \<lparr>collision_count = 1, retry_count = 1, listens = 2, detects = 3, writes = 3,
        jams = 1, draws = 1, port_data = [0xFF, 0xFF, 0xFF, 0xFF, 0x01, 0x02],
        slept_ms = 37, attempt_log = [Collided, Completed]\<rparr>)"
  by code_simp




end
